theory Spec2Isabelle
  imports Complex_Main
begin

section \<open>Errors\<close>

text \<open>
  The Python exceptions the code can meet. \<open>Exception msg\<close> is the plain
  \<^verbatim>\<open>raise Exception(msg)\<close> of \<^verbatim>\<open>utils/model.py\<close>; \<open>ValueError\<close> and \<open>IndexError\<close> are
  the errors raised by the libraries the code calls and by Python indexing.
\<close>

datatype error = Exception string | ValueError | IndexError

section \<open>The inference driver (infer_tflite.py)\<close>

text \<open>
  A numpy array is either a 0-dimensional value or a sequence of arrays; the tensor the
  interpreter returns for a classifier has shape \<open>(1, classes)\<close>, that is
  \<open>Array [Array [Scalar p0, Scalar p1, ...]]\<close>.
\<close>

datatype 'a ndarray = Scalar 'a | Array "'a ndarray list"

text \<open>\<^verbatim>\<open>a[0]\<close>: a scalar cannot be indexed, an empty axis has no element 0.\<close>

fun getitem0 :: "'a ndarray \<Rightarrow> error + 'a ndarray" where
  "getitem0 (Scalar v) = Inl IndexError"
| "getitem0 (Array []) = Inl IndexError"
| "getitem0 (Array (x # xs)) = Inr x"

text \<open>\<^verbatim>\<open>np.argmax(a)\<close> with no axis works on the flattened array.\<close>

fun flatten :: "'a ndarray \<Rightarrow> 'a list" where
  "flatten (Scalar v) = [v]"
| "flatten (Array xs) = concat (map flatten xs)"

text \<open>
  The index of the first occurrence of the maximum: \<open>best\<close> is the largest value seen so
  far, found at \<open>besti\<close>, and \<open>i\<close> is the index of the next element.
\<close>

fun argmax_from :: "'a::linorder \<Rightarrow> nat \<Rightarrow> nat \<Rightarrow> 'a list \<Rightarrow> nat" where
  "argmax_from best besti i [] = besti"
| "argmax_from best besti i (x # xs) =
     (if best < x then argmax_from x i (Suc i) xs else argmax_from best besti (Suc i) xs)"

definition np_argmax :: "'a::linorder ndarray \<Rightarrow> error + nat" where
  "np_argmax a = (case flatten a of [] \<Rightarrow> Inl ValueError | x # xs \<Rightarrow> Inr (argmax_from x 0 1 xs))"

text \<open>\<^verbatim>\<open>names[i]\<close> for a list and an index that is not negative.\<close>

definition list_getitem :: "'b list \<Rightarrow> nat \<Rightarrow> error + 'b" where
  "list_getitem xs i = (if i < length xs then Inr (xs ! i) else Inl IndexError)"

text \<open>
  Line 33 of the driver:
  \<^verbatim>\<open>label = Cfg.CIFAR_10_CLASS_NAMES[np.argmax(output_data[0][0])]\<close>.
  The table \<^verbatim>\<open>Cfg.CIFAR_10_CLASS_NAMES\<close> lives in \<^verbatim>\<open>utils/config.py\<close> and is a parameter here.
\<close>

definition label :: "string list \<Rightarrow> 'a::linorder ndarray \<Rightarrow> error + string" where
  "label CIFAR_10_CLASS_NAMES output_data =
     (case getitem0 output_data of
        Inl e \<Rightarrow> Inl e
      | Inr row \<Rightarrow>
          (case getitem0 row of
             Inl e \<Rightarrow> Inl e
           | Inr cell \<Rightarrow>
               (case np_argmax cell of
                  Inl e \<Rightarrow> Inl e
                | Inr i \<Rightarrow> list_getitem CIFAR_10_CLASS_NAMES i)))"

text \<open>
  Lines 27 to 33: one forward pass of the interpreter on the image batch, then the tensor
  of the primary output slot \<^verbatim>\<open>output_details[0]\<close>. The interpreter is a parameter: it
  maps the bound input tensor to the list of its output tensors.
\<close>

definition infer_tflite ::
  "string list \<Rightarrow> ('a ndarray \<Rightarrow> 'a::linorder ndarray list) \<Rightarrow> 'a ndarray \<Rightarrow> error + string" where
  "infer_tflite CIFAR_10_CLASS_NAMES invoke images =
     (case invoke images of
        [] \<Rightarrow> Inl IndexError
      | output_data # _ \<Rightarrow> label CIFAR_10_CLASS_NAMES output_data)"

text \<open>What the specification asks of the driver: the arg-max of the image's probability vector.\<close>

definition label_of_argmax :: "string list \<Rightarrow> 'a::linorder ndarray \<Rightarrow> error + string" where
  "label_of_argmax names output_data =
     (case getitem0 output_data of
        Inl e \<Rightarrow> Inl e
      | Inr row \<Rightarrow>
          (case np_argmax row of
             Inl e \<Rightarrow> Inl e
           | Inr i \<Rightarrow> list_getitem names i))"

section \<open>The layer API the builders call\<close>

text \<open>
  The builders of \<^verbatim>\<open>utils/GoogLeNet.py\<close> construct layers and call them on symbolic
  tensors. A symbolic tensor has a static shape, whose batch entry is \<open>None\<close>, and is the
  output of one node of the graph under construction; a node records its layer, the nodes
  whose outputs it consumes, in call order, and its output shape. A layer call that the
  framework rejects raises \<open>ValueError\<close> at that statement.
\<close>

datatype padding = Valid | Same

datatype activation = Relu | Softmax

datatype initializer = RandomUniform "nat option" | GlorotUniform "nat option"

text \<open>
  The layers with the arguments the source passes, in this order:
  \<open>Conv2D filters kernel_size strides padding activation kernel_initializer\<close>,
  \<open>MaxPooling2D pool_size strides padding\<close>, \<open>AveragePooling2D pool_size strides padding\<close>,
  \<open>Dense units activation name kernel_initializer\<close>, \<open>Dropout rate\<close>, \<open>Concatenate axis\<close>.
\<close>

datatype layer =
    InputLayer "nat list"
  | Conv2D nat "nat \<times> nat" "nat \<times> nat" padding "activation option" initializer
  | MaxPooling2D "nat \<times> nat" "nat \<times> nat" padding
  | AveragePooling2D "nat \<times> nat" "nat \<times> nat" padding
  | Flatten
  | Dense int "activation option" "string option" initializer
  | Dropout real
  | Concatenate int

type_synonym tshape = "nat option list"

record node =
  layer :: layer
  inbound :: "nat list"
  output_shape :: tshape

record ktensor =
  shape :: tshape
  node_id :: nat

type_synonym graph = "node list"

type_synonym 'a build = "graph \<Rightarrow> error + ('a \<times> graph)"

definition bind :: "'a build \<Rightarrow> ('a \<Rightarrow> 'b build) \<Rightarrow> 'b build" where
  "bind m f g = (case m g of Inl e \<Rightarrow> Inl e | Inr (x, g') \<Rightarrow> f x g')"

definition return :: "'a \<Rightarrow> 'a build" where
  "return x g = Inr (x, g)"

subsection \<open>Output shapes\<close>

text \<open>
  One spatial extent under a window \<open>k\<close> moved by stride \<open>s\<close>: with \<open>same\<close> padding the
  result is the ceiling of \<open>n / s\<close>; with \<open>valid\<close> padding it is
  \<open>(n - k) div s + 1\<close>, and a window larger than its input is rejected.
\<close>

definition same_out :: "nat \<Rightarrow> nat \<Rightarrow> nat" where
  "same_out n s = (n + s - 1) div s"

definition valid_out :: "nat \<Rightarrow> nat \<Rightarrow> nat \<Rightarrow> nat" where
  "valid_out n k s = (n - k) div s + 1"

fun window_dim :: "padding \<Rightarrow> nat option \<Rightarrow> nat \<Rightarrow> nat \<Rightarrow> error + nat option" where
  "window_dim p None k s = Inr None"
| "window_dim Same (Some n) k s = Inr (Some (same_out n s))"
| "window_dim Valid (Some n) k s =
     (if n < k then Inl ValueError else Inr (Some (valid_out n k s)))"

text \<open>A window layer needs a rank-4 input \<open>(batch, height, width, channels)\<close>.\<close>

fun window_shape ::
  "padding \<Rightarrow> nat \<times> nat \<Rightarrow> nat \<times> nat \<Rightarrow> nat option \<Rightarrow> tshape \<Rightarrow> error + tshape" where
  "window_shape p (kh, kw) (sh, sw) c [b, h, w, _] =
     (if kh = 0 \<or> kw = 0 \<or> sh = 0 \<or> sw = 0 then Inl ValueError
      else (case window_dim p h kh sh of
              Inl e \<Rightarrow> Inl e
            | Inr h' \<Rightarrow>
                (case window_dim p w kw sw of
                   Inl e \<Rightarrow> Inl e
                 | Inr w' \<Rightarrow> Inr [b, h', w', c])))"
| "window_shape p k s c _ = Inl ValueError"

fun prod_dims :: "tshape \<Rightarrow> nat option" where
  "prod_dims [] = Some 1"
| "prod_dims (None # ds) = None"
| "prod_dims (Some d # ds) = (case prod_dims ds of None \<Rightarrow> None | Some n \<Rightarrow> Some (d * n))"

text \<open>
  Concatenation: the inputs must agree, where defined, on every axis but the
  concatenation axis; the result is the first input's shape with the extents of that axis
  added up.
\<close>

definition drop_axis :: "nat \<Rightarrow> tshape \<Rightarrow> tshape" where
  "drop_axis a s = take a s @ drop (Suc a) s"

fun compatible :: "nat option \<Rightarrow> nat option \<Rightarrow> bool" where
  "compatible (Some x) (Some y) = (x = y)"
| "compatible _ _ = True"

fun sum_dims :: "nat option list \<Rightarrow> nat option" where
  "sum_dims [] = Some 0"
| "sum_dims (None # ds) = None"
| "sum_dims (Some d # ds) = (case sum_dims ds of None \<Rightarrow> None | Some n \<Rightarrow> Some (d + n))"

definition concat_shape :: "int \<Rightarrow> tshape list \<Rightarrow> error + tshape" where
  "concat_shape axis ss =
     (case ss of
        [] \<Rightarrow> Inl ValueError
      | s0 # _ \<Rightarrow>
          let rank = length s0;
              a = (if axis < 0 then axis + int rank else axis)
          in if \<not> list_all (\<lambda>s. length s = rank) ss then Inl ValueError
             else if a < 0 \<or> int rank \<le> a then Inl ValueError
             else let reduced = map (drop_axis (nat a)) ss
                  in if \<not> list_all (\<lambda>s. list_all (\<lambda>t. list_all2 compatible s t) reduced) reduced
                     then Inl ValueError
                     else Inr (s0[nat a := sum_dims (map (\<lambda>s. s ! nat a) ss)]))"

text \<open>
  The shape a layer gives its output, or the rejection of the call: convolutions and
  poolings need a feature map and windows and strides free of zeros, and a convolution a
  positive number of filters; \<open>Flatten\<close> multiplies the extents after the batch axis;
  \<open>Dense\<close> needs a positive number of units and a defined last axis; \<open>Dropout\<close> needs a
  rate between 0 and 1.
\<close>

fun compute_output_shape :: "layer \<Rightarrow> tshape list \<Rightarrow> error + tshape" where
  "compute_output_shape (InputLayer ds) [] = Inr (None # map Some ds)"
| "compute_output_shape (Conv2D filters kernel_size strides pad act init) [s] =
     (if filters = 0 then Inl ValueError
      else case s of
             [b, h, w, Some c] \<Rightarrow> window_shape pad kernel_size strides (Some filters) s
           | _ \<Rightarrow> Inl ValueError)"
| "compute_output_shape (MaxPooling2D pool_size strides pad) [s] =
     (case s of
        [b, h, w, c] \<Rightarrow> window_shape pad pool_size strides c s
      | _ \<Rightarrow> Inl ValueError)"
| "compute_output_shape (AveragePooling2D pool_size strides pad) [s] =
     (case s of
        [b, h, w, c] \<Rightarrow> window_shape pad pool_size strides c s
      | _ \<Rightarrow> Inl ValueError)"
| "compute_output_shape Flatten [s] =
     (case s of [] \<Rightarrow> Inl ValueError | b # ds \<Rightarrow> Inr [b, prod_dims ds])"
| "compute_output_shape (Dense units act name init) [s] =
     (if units \<le> 0 \<or> length s < 2 then Inl ValueError
      else case last s of
             None \<Rightarrow> Inl ValueError
           | Some _ \<Rightarrow> Inr (butlast s @ [Some (nat units)]))"
| "compute_output_shape (Dropout rate) [s] =
     (if rate < 0 \<or> 1 < rate then Inl ValueError else Inr s)"
| "compute_output_shape (Concatenate axis) ss = concat_shape axis ss"
| "compute_output_shape _ _ = Inl ValueError"

text \<open>
  Calling a layer on tensors, \<^verbatim>\<open>Layer(...)(X)\<close>: the output shape is computed, a node is
  added to the graph and the tensor it produces is returned.
\<close>

definition call :: "layer \<Rightarrow> ktensor list \<Rightarrow> ktensor build" where
  "call l xs g =
     (case compute_output_shape l (map shape xs) of
        Inl e \<Rightarrow> Inl e
      | Inr s \<Rightarrow>
          Inr (\<lparr>shape = s, node_id = length g\<rparr>,
               g @ [\<lparr>layer = l, inbound = map node_id xs, output_shape = s\<rparr>]))"

text \<open>\<^verbatim>\<open>Input(shape)\<close> and \<^verbatim>\<open>concatenate(inputs, axis)\<close>, whose axis defaults to \<open>-1\<close>.\<close>

definition Input :: "nat \<times> nat \<times> nat \<Rightarrow> ktensor build" where
  "Input s = (case s of (h, w, c) \<Rightarrow> call (InputLayer [h, w, c]) [])"

definition concatenate :: "ktensor list \<Rightarrow> int \<Rightarrow> ktensor build" where
  "concatenate inputs axis = call (Concatenate axis) inputs"

definition default_axis :: int where
  "default_axis = - 1"

definition random_uniform :: "nat option \<Rightarrow> initializer" where
  "random_uniform seed = RandomUniform seed"

definition glorot_uniform :: "nat option \<Rightarrow> initializer" where
  "glorot_uniform seed = GlorotUniform seed"

subsection \<open>Models and their compilation\<close>

datatype loss = CategoricalCrossentropy

datatype loss_arg = Loss loss | LossDict "(string \<times> loss) list"

text \<open>An optimizer is named by a string or is \<open>SGD learning_rate momentum nesterov\<close>.\<close>

datatype optimizer = OptimizerName string | SGD real real bool

datatype metrics_arg = MetricList "string list" | MetricDict "(string \<times> string) list"

record compile_args =
  loss_of :: loss_arg
  optimizer_of :: optimizer
  loss_weights_of :: "real list option"
  metrics_of :: metrics_arg

record model =
  graph_of :: graph
  inputs :: "ktensor list"
  outputs :: "ktensor list"
  compiled :: "compile_args option"

text \<open>\<^verbatim>\<open>Model(inputs=..., outputs=...)\<close> closes the graph built so far.\<close>

definition Model :: "ktensor \<Rightarrow> ktensor list \<Rightarrow> model build" where
  "Model X_input outs g =
     Inr (\<lparr>graph_of = g, inputs = [X_input], outputs = outs, compiled = None\<rparr>, g)"

text \<open>\<^verbatim>\<open>model.compile(loss, optimizer, loss_weights, metrics)\<close> stores the training recipe.\<close>

definition compile :: "loss_arg \<Rightarrow> optimizer \<Rightarrow> real list option \<Rightarrow> metrics_arg \<Rightarrow> model \<Rightarrow> model" where
  "compile l opt lw ms m =
     m\<lparr>compiled := Some \<lparr>loss_of = l, optimizer_of = opt, loss_weights_of = lw, metrics_of = ms\<rparr>\<rparr>"

text \<open>\<^verbatim>\<open>SGD(learning_rate, momentum)\<close> leaves \<^verbatim>\<open>nesterov\<close> at its default, \<open>False\<close>.\<close>

definition SGD_default :: "real \<Rightarrow> real \<Rightarrow> optimizer" where
  "SGD_default learning_rate momentum = SGD learning_rate momentum False"

text \<open>Reading a built model: the layer behind a tensor, the names of the output layers,
  the shape of the input node, and the weight a positional weight list gives an output.\<close>

definition layer_at :: "graph \<Rightarrow> ktensor \<Rightarrow> layer option" where
  "layer_at g t = (if node_id t < length g then Some (layer (g ! node_id t)) else None)"

fun layer_name :: "layer option \<Rightarrow> string option" where
  "layer_name (Some (Dense units act name init)) = name"
| "layer_name _ = None"

definition output_names :: "model \<Rightarrow> string option list" where
  "output_names m = map (\<lambda>t. layer_name (layer_at (graph_of m) t)) (outputs m)"

definition input_layers :: "model \<Rightarrow> layer option list" where
  "input_layers m = map (layer_at (graph_of m)) (inputs m)"

definition loss_weight :: "model \<Rightarrow> string \<Rightarrow> real option" where
  "loss_weight m name =
     (case compiled m of
        None \<Rightarrow> None
      | Some c \<Rightarrow>
          (case loss_weights_of c of
             None \<Rightarrow> None
           | Some ws \<Rightarrow> map_of (zip (output_names m) ws) (Some name)))"

section \<open>The GoogLeNet builder (utils/GoogLeNet.py)\<close>

definition default_kernel_size :: "(nat \<times> nat) \<times> (nat \<times> nat) \<times> (nat \<times> nat)" where
  "default_kernel_size = ((1, 1), (3, 3), (5, 5))"

definition default_pool_size :: "nat \<times> nat" where
  "default_pool_size = (3, 3)"

text \<open>
  \<^verbatim>\<open>GoogLeNet._naive_inception_block\<close>, lines 14 to 42, in two steps: the four branches,
  each called on \<open>X\<close> (lines 26 to 38), and their concatenation with \<^verbatim>\<open>axis=0\<close> (line 40).
\<close>

definition naive_inception_branches ::
  "ktensor \<Rightarrow> nat \<times> nat \<times> nat \<Rightarrow> (nat \<times> nat) \<times> (nat \<times> nat) \<times> (nat \<times> nat) \<Rightarrow> nat \<times> nat \<Rightarrow>
   (nat option \<Rightarrow> initializer) \<Rightarrow> ktensor list build" where
  "naive_inception_branches X filters kernel_size pool_size initializer =
     (case filters of (filters_1by1, filters_3by3, filters_5by5) \<Rightarrow>
      case kernel_size of (kernel_size_1by1, kernel_size_3by3, kernel_size_5by5) \<Rightarrow>
      bind (call (Conv2D filters_1by1 kernel_size_1by1 (1, 1) Valid (Some Relu) (initializer (Some 0))) [X])
        (\<lambda>X_1by1.
      bind (call (Conv2D filters_3by3 kernel_size_3by3 (1, 1) Valid (Some Relu) (initializer (Some 0))) [X])
        (\<lambda>X_3by3.
      bind (call (Conv2D filters_5by5 kernel_size_5by5 (1, 1) Valid (Some Relu) (initializer (Some 0))) [X])
        (\<lambda>X_5by5.
      bind (call (MaxPooling2D pool_size (1, 1) Same) [X])
        (\<lambda>X_max_pooling.
      return [X_1by1, X_3by3, X_5by5, X_max_pooling])))))"

definition naive_inception_block ::
  "ktensor \<Rightarrow> nat \<times> nat \<times> nat \<Rightarrow> (nat \<times> nat) \<times> (nat \<times> nat) \<times> (nat \<times> nat) \<Rightarrow> nat \<times> nat \<Rightarrow>
   (nat option \<Rightarrow> initializer) \<Rightarrow> ktensor build" where
  "naive_inception_block X filters kernel_size pool_size initializer =
     bind (naive_inception_branches X filters kernel_size pool_size initializer)
       (\<lambda>branches.
     bind (concatenate branches 0)
       (\<lambda>X_concat.
     return X_concat))"

text \<open>\<^verbatim>\<open>GoogLeNet._inception_block\<close>, lines 45 to 87; its concatenation takes the default axis.\<close>

definition inception_block ::
  "ktensor \<Rightarrow> nat \<times> nat \<times> nat \<Rightarrow> nat \<times> nat \<times> nat \<Rightarrow>
   (nat \<times> nat) \<times> (nat \<times> nat) \<times> (nat \<times> nat) \<Rightarrow> nat \<times> nat \<Rightarrow>
   (nat option \<Rightarrow> initializer) \<Rightarrow> ktensor build" where
  "inception_block X filters reduced_filters kernel_size pool_size initializer =
     (case filters of (filters_1by1, filters_3by3, filters_5by5) \<Rightarrow>
      case reduced_filters of (reduced_filters_3by3, reduced_filters_5by5, pool_projection) \<Rightarrow>
      case kernel_size of (kernel_size_1by1, kernel_size_3by3, kernel_size_5by5) \<Rightarrow>
      bind (call (Conv2D filters_1by1 kernel_size_1by1 (1, 1) Same (Some Relu) (initializer (Some 0))) [X])
        (\<lambda>X_1by1.
      bind (call (Conv2D reduced_filters_3by3 (1, 1) (1, 1) Same (Some Relu) (initializer (Some 0))) [X])
        (\<lambda>X_reduced_3by3.
      bind (call (Conv2D filters_3by3 kernel_size_3by3 (1, 1) Same (Some Relu) (initializer (Some 0)))
              [X_reduced_3by3])
        (\<lambda>X_3by3.
      bind (call (Conv2D reduced_filters_5by5 (1, 1) (1, 1) Same (Some Relu) (initializer (Some 0))) [X])
        (\<lambda>X_reduced_5by5.
      bind (call (Conv2D filters_5by5 kernel_size_5by5 (1, 1) Same (Some Relu) (initializer (Some 0)))
              [X_reduced_5by5])
        (\<lambda>X_5by5.
      bind (call (MaxPooling2D pool_size (1, 1) Same) [X])
        (\<lambda>X_max_pooling.
      bind (call (Conv2D pool_projection (1, 1) (1, 1) Same (Some Relu) (initializer (Some 0)))
              [X_max_pooling])
        (\<lambda>X_reduced_5by5.
      bind (concatenate [X_1by1, X_3by3, X_5by5, X_reduced_5by5] default_axis)
        (\<lambda>X_concat.
      return X_concat)))))))))"

text \<open>\<^verbatim>\<open>GoogLeNet._auxiliary_classifier\<close>, lines 89 to 118; \<open>classes\<close> is \<^verbatim>\<open>self.classes\<close>.\<close>

definition auxiliary_classifier ::
  "int \<Rightarrow> ktensor \<Rightarrow> string \<Rightarrow> (nat option \<Rightarrow> initializer) \<Rightarrow> ktensor build" where
  "auxiliary_classifier classes X output_name initializer =
     bind (call (AveragePooling2D (5, 5) (3, 3) Valid) [X])
       (\<lambda>X_average_pool.
     bind (call (Conv2D 128 (1, 1) (1, 1) Same (Some Relu) (initializer (Some 0))) [X_average_pool])
       (\<lambda>X_conv.
     bind (call Flatten [X_conv])
       (\<lambda>X_flatten.
     bind (call (Dense 1024 (Some Relu) None (glorot_uniform (Some 0))) [X_flatten])
       (\<lambda>X_fc.
     bind (call (Dropout (7 / 10)) [X_fc])
       (\<lambda>X_dropout.
     bind (call (Dense classes (Some Softmax) (Some output_name) (glorot_uniform (Some 0))) [X_dropout])
       (\<lambda>X_aux_output.
     return X_aux_output))))))"

text \<open>
  A call \<^verbatim>\<open>self._inception_block(X=X, filters=..., reduced_filters=...)\<close> of \<open>google_net\<close>,
  which leaves kernel sizes, pool size and initializer at their defaults.
\<close>

definition inception_block_defaults :: "ktensor \<Rightarrow> nat \<times> nat \<times> nat \<Rightarrow> nat \<times> nat \<times> nat \<Rightarrow> ktensor build" where
  "inception_block_defaults X filters reduced_filters =
     inception_block X filters reduced_filters default_kernel_size default_pool_size random_uniform"

text \<open>
  \<^verbatim>\<open>GoogLeNet.google_net\<close>, lines 120 to 202, as a builder on the graph under
  construction; \<open>input_shape\<close> and \<open>classes\<close> are the fields set by \<^verbatim>\<open>__init__\<close>. The
  convolutions of layers 1, 3 and 4 are given \<^verbatim>\<open>random_uniform\<close> itself, without a seed,
  and no activation.
\<close>

definition google_net_build :: "nat \<times> nat \<Rightarrow> int \<Rightarrow> model build" where
  "google_net_build input_shape classes =
     bind (Input (fst input_shape, snd input_shape, 3))
       (\<lambda>X_input.
     bind (call (Conv2D 64 (7, 7) (2, 2) Same None (random_uniform None)) [X_input])
       (\<lambda>X.
     bind (call (MaxPooling2D (3, 3) (2, 2) Same) [X])
       (\<lambda>X.
     bind (call (Conv2D 64 (1, 1) (1, 1) Valid None (random_uniform None)) [X])
       (\<lambda>X.
     bind (call (Conv2D 192 (3, 3) (1, 1) Same None (random_uniform None)) [X])
       (\<lambda>X.
     bind (call (MaxPooling2D (3, 3) (2, 2) Same) [X])
       (\<lambda>X.
     bind (inception_block_defaults X (64, 128, 32) (96, 16, 32))
       (\<lambda>X.
     bind (inception_block_defaults X (128, 192, 96) (128, 32, 64))
       (\<lambda>X.
     bind (call (MaxPooling2D (3, 3) (2, 2) Same) [X])
       (\<lambda>X.
     bind (inception_block_defaults X (192, 208, 48) (96, 16, 64))
       (\<lambda>X.
     bind (auxiliary_classifier classes X ''output_aux_1'' random_uniform)
       (\<lambda>X_aux_1.
     bind (inception_block_defaults X (160, 224, 64) (112, 24, 64))
       (\<lambda>X.
     bind (inception_block_defaults X (128, 256, 64) (128, 24, 64))
       (\<lambda>X.
     bind (inception_block_defaults X (112, 288, 64) (144, 32, 64))
       (\<lambda>X.
     bind (auxiliary_classifier classes X ''output_aux_2'' random_uniform)
       (\<lambda>X_aux_2.
     bind (inception_block_defaults X (256, 320, 128) (160, 32, 128))
       (\<lambda>X.
     bind (call (MaxPooling2D (3, 3) (2, 2) Same) [X])
       (\<lambda>X.
     bind (inception_block_defaults X (256, 320, 128) (160, 32, 128))
       (\<lambda>X.
     bind (inception_block_defaults X (384, 384, 128) (192, 48, 128))
       (\<lambda>X.
     bind (call (AveragePooling2D (7, 7) (1, 1) Valid) [X])
       (\<lambda>X.
     bind (call Flatten [X])
       (\<lambda>X.
     bind (call (Dropout (4 / 10)) [X])
       (\<lambda>X.
     bind (call (Dense 1000 (Some Relu) None (glorot_uniform (Some 0))) [X])
       (\<lambda>X.
     bind (call (Dense classes (Some Softmax) (Some ''output'') (glorot_uniform (Some 0))) [X])
       (\<lambda>output.
     Model X_input [output, X_aux_1, X_aux_2]))))))))))))))))))))))))"

definition google_net :: "nat \<times> nat \<Rightarrow> int \<Rightarrow> error + model" where
  "google_net input_shape classes =
     (case google_net_build input_shape classes [] of
        Inl e \<Rightarrow> Inl e
      | Inr (model, g) \<Rightarrow> Inr model)"

section \<open>The model factory and the model loader (utils/model.py)\<close>

text \<open>
  \<^verbatim>\<open>utils/config.py\<close> is not among the sources: the fields of \<^verbatim>\<open>Config\<close> that the code
  reads are the fields of this record, an input size being the pair (height, width).
\<close>

record config =
  MODEL_TYPE :: string
  RESNET50_INPUT_SIZE :: "nat \<times> nat"
  MOBILENET_V1_INPUT_SIZE :: "nat \<times> nat"
  MOBILENET_V2_INPUT_SIZE :: "nat \<times> nat"
  GOOGLE_NET_INPUT_SIZE :: "nat \<times> nat"
  VGG16_NET_INPUT_SIZE :: "nat \<times> nat"
  VGG13_NET_INPUT_SIZE :: "nat \<times> nat"
  VGG11_NET_INPUT_SIZE :: "nat \<times> nat"
  CIFAR_10_CLASS_NAMES :: "string list"

text \<open>
  The builders of \<^verbatim>\<open>utils/ResNet.py\<close>, \<^verbatim>\<open>utils/MobileNet.py\<close> and \<^verbatim>\<open>utils/VGG.py\<close> are not
  among the sources either: \<open>get_model\<close> takes them as parameters, each from the input
  size and the number of classes to the built model or the error it raises.
\<close>

record builders =
  res_net50 :: "nat \<times> nat \<Rightarrow> int \<Rightarrow> error + model"
  mobile_net_v1 :: "nat \<times> nat \<Rightarrow> int \<Rightarrow> error + model"
  mobile_net_v2 :: "nat \<times> nat \<Rightarrow> int \<Rightarrow> error + model"
  vgg16 :: "nat \<times> nat \<Rightarrow> int \<Rightarrow> error + model"
  vgg13 :: "nat \<times> nat \<Rightarrow> int \<Rightarrow> error + model"
  vgg11 :: "nat \<times> nat \<Rightarrow> int \<Rightarrow> error + model"

text \<open>The compilation of the single-output branches, with the optimizer's name.\<close>

definition compile_single :: "string \<Rightarrow> model \<Rightarrow> model" where
  "compile_single opt m =
     compile (Loss CategoricalCrossentropy) (OptimizerName opt) None (MetricList [''accuracy'']) m"

text \<open>
  Lines 53 to 67, after \<^verbatim>\<open>google_net()\<close> has returned: the optimizer is bound twice
  before \<^verbatim>\<open>compile\<close> reads it.
\<close>

definition compile_google_net :: "model \<Rightarrow> model" where
  "compile_google_net m =
     (let optimizer = SGD (1 / 100) (9 / 10) False;
          losses = LossDict [(''output'', CategoricalCrossentropy),
                             (''output_aux_1'', CategoricalCrossentropy),
                             (''output_aux_2'', CategoricalCrossentropy)];
          metrics = MetricDict [(''output'', ''accuracy''), (''output_aux_1'', ''accuracy''),
                                (''output_aux_2'', ''accuracy'')];
          optimizer = SGD_default (1 / 10) (9 / 10)
      in compile losses optimizer (Some [1, 3 / 10, 3 / 10]) metrics m)"

text \<open>\<^verbatim>\<open>get_model(classes_numbers)\<close>, lines 13 to 99; it reads the global \<^verbatim>\<open>Cfg\<close>.\<close>

definition get_model :: "builders \<Rightarrow> config \<Rightarrow> int \<Rightarrow> error + (model \<times> (nat \<times> nat))" where
  "get_model B Cfg classes_numbers =
     (if MODEL_TYPE Cfg = ''ResNet50'' then
        (let input_size = RESNET50_INPUT_SIZE Cfg in
         case res_net50 B input_size classes_numbers of
           Inl e \<Rightarrow> Inl e
         | Inr m \<Rightarrow> Inr (compile_single ''adam'' m, input_size))
      else if MODEL_TYPE Cfg = ''MobileNetV1'' then
        (let input_size = MOBILENET_V1_INPUT_SIZE Cfg in
         case mobile_net_v1 B input_size classes_numbers of
           Inl e \<Rightarrow> Inl e
         | Inr m \<Rightarrow> Inr (compile_single ''adam'' m, input_size))
      else if MODEL_TYPE Cfg = ''MobileNetV2'' then
        (let input_size = MOBILENET_V2_INPUT_SIZE Cfg in
         case mobile_net_v2 B input_size classes_numbers of
           Inl e \<Rightarrow> Inl e
         | Inr m \<Rightarrow> Inr (compile_single ''sgd'' m, input_size))
      else if MODEL_TYPE Cfg = ''GoogLeNet'' then
        (let input_size = GOOGLE_NET_INPUT_SIZE Cfg in
         case google_net input_size classes_numbers of
           Inl e \<Rightarrow> Inl e
         | Inr m \<Rightarrow> Inr (compile_google_net m, input_size))
      else if MODEL_TYPE Cfg = ''VGG16'' then
        (let input_size = VGG16_NET_INPUT_SIZE Cfg in
         case vgg16 B input_size classes_numbers of
           Inl e \<Rightarrow> Inl e
         | Inr m \<Rightarrow> Inr (compile_single ''adam'' m, input_size))
      else if MODEL_TYPE Cfg = ''VGG13'' then
        (let input_size = VGG13_NET_INPUT_SIZE Cfg in
         case vgg13 B input_size classes_numbers of
           Inl e \<Rightarrow> Inl e
         | Inr m \<Rightarrow> Inr (compile_single ''adam'' m, input_size))
      else if MODEL_TYPE Cfg = ''VGG11'' then
        (let input_size = VGG11_NET_INPUT_SIZE Cfg in
         case vgg11 B input_size classes_numbers of
           Inl e \<Rightarrow> Inl e
         | Inr m \<Rightarrow> Inr (compile_single ''adam'' m, input_size))
      else Inl (Exception ''Invalid model type!''))"

text \<open>
  \<^verbatim>\<open>load_model(model_path)\<close>, lines 102 to 154. \<open>keras_load_model\<close> stands for
  \<^verbatim>\<open>tf.keras.models.load_model\<close> on the files present: the model stored at a path, or the
  error the framework raises.
\<close>

definition load_model ::
  "(string \<Rightarrow> error + model) \<Rightarrow> config \<Rightarrow> string \<Rightarrow> error + (model \<times> (nat \<times> nat))" where
  "load_model keras_load_model Cfg model_path =
     (if MODEL_TYPE Cfg = ''ResNet50'' then
        (let input_shape = RESNET50_INPUT_SIZE Cfg in
         case keras_load_model model_path of Inl e \<Rightarrow> Inl e | Inr m \<Rightarrow> Inr (m, input_shape))
      else if MODEL_TYPE Cfg = ''MobileNetV1'' then
        (let input_shape = MOBILENET_V1_INPUT_SIZE Cfg in
         case keras_load_model model_path of Inl e \<Rightarrow> Inl e | Inr m \<Rightarrow> Inr (m, input_shape))
      else if MODEL_TYPE Cfg = ''MobileNetV2'' then
        (let input_shape = MOBILENET_V2_INPUT_SIZE Cfg in
         case keras_load_model model_path of Inl e \<Rightarrow> Inl e | Inr m \<Rightarrow> Inr (m, input_shape))
      else if MODEL_TYPE Cfg = ''GoogLeNet'' then
        (let input_shape = GOOGLE_NET_INPUT_SIZE Cfg in
         case keras_load_model model_path of Inl e \<Rightarrow> Inl e | Inr m \<Rightarrow> Inr (m, input_shape))
      else if MODEL_TYPE Cfg = ''VGG16'' then
        (let input_shape = VGG16_NET_INPUT_SIZE Cfg in
         case keras_load_model model_path of Inl e \<Rightarrow> Inl e | Inr m \<Rightarrow> Inr (m, input_shape))
      else if MODEL_TYPE Cfg = ''VGG13'' then
        (let input_shape = VGG13_NET_INPUT_SIZE Cfg in
         case keras_load_model model_path of Inl e \<Rightarrow> Inl e | Inr m \<Rightarrow> Inr (m, input_shape))
      else if MODEL_TYPE Cfg = ''VGG11'' then
        (let input_shape = VGG11_NET_INPUT_SIZE Cfg in
         case keras_load_model model_path of Inl e \<Rightarrow> Inl e | Inr m \<Rightarrow> Inr (m, input_shape))
      else Inl (Exception ''Invalid model type!''))"

text \<open>The model names the two dispatchers know, and the size \<^verbatim>\<open>Config\<close> declares for each.\<close>

definition supported :: "string list" where
  "supported = [''ResNet50'', ''MobileNetV1'', ''MobileNetV2'', ''GoogLeNet'', ''VGG16'', ''VGG13'', ''VGG11'']"


text \<open>
  Modelled from the spec: the builders of the single-output architectures
  (\<^verbatim>\<open>utils/ResNet.py\<close>, \<^verbatim>\<open>utils/MobileNet.py\<close>, \<^verbatim>\<open>utils/VGG.py\<close>) are missing from the
  sources. The spec says of their graphs that the single input node accepts the
  Config-declared input shape and that there is one output; what lies between the two is
  left open, so it is the parameter \<open>trunk\<close>, from the number of classes and the input
  tensor to the output tensor.
\<close>

definition single_output_net ::
  "(int \<Rightarrow> ktensor \<Rightarrow> ktensor build) \<Rightarrow> nat \<times> nat \<Rightarrow> int \<Rightarrow> error + model" where
  "single_output_net trunk input_shape classes =
     (case bind (Input (fst input_shape, snd input_shape, 3))
             (\<lambda>X_input.
           bind (trunk classes X_input)
             (\<lambda>output.
           Model X_input [output])) [] of
        Inl e \<Rightarrow> Inl e
      | Inr (model, g) \<Rightarrow> Inr model)"

definition spec_builders :: "(string \<Rightarrow> int \<Rightarrow> ktensor \<Rightarrow> ktensor build) \<Rightarrow> builders" where
  "spec_builders trunk =
     \<lparr>res_net50 = single_output_net (trunk ''ResNet50''),
      mobile_net_v1 = single_output_net (trunk ''MobileNetV1''),
      mobile_net_v2 = single_output_net (trunk ''MobileNetV2''),
      vgg16 = single_output_net (trunk ''VGG16''),
      vgg13 = single_output_net (trunk ''VGG13''),
      vgg11 = single_output_net (trunk ''VGG11'')\<rparr>"

text \<open>
  The extent a spatial dimension \<open>n\<close> of the input has in \<open>google_net\<close> after layer 2,
  where the auxiliary classifiers are tapped (after layer 8), and before layer 17 (after
  layer 14).
\<close>

definition extent_after_stem :: "nat \<Rightarrow> nat" where
  "extent_after_stem n = same_out (same_out n 2) 2"

definition extent_at_aux :: "nat \<Rightarrow> nat" where
  "extent_at_aux n = same_out (same_out (valid_out (extent_after_stem n) (Suc 0) (Suc 0)) 2) 2"

definition extent_at_tail :: "nat \<Rightarrow> nat" where
  "extent_at_tail n = same_out (extent_at_aux n) 2"

text \<open>
  Values for the examples: a configuration of the kind \<^verbatim>\<open>utils/config.py\<close> holds, with
  every input size 224x224 and the ten CIFAR-10 class names, and a trunk for the
  single-output builders that flattens its input and classifies it.
\<close>

definition example_config :: "string \<Rightarrow> config" where
  "example_config model_type =
     \<lparr>MODEL_TYPE = model_type,
      RESNET50_INPUT_SIZE = (224, 224),
      MOBILENET_V1_INPUT_SIZE = (224, 224),
      MOBILENET_V2_INPUT_SIZE = (224, 224),
      GOOGLE_NET_INPUT_SIZE = (224, 224),
      VGG16_NET_INPUT_SIZE = (224, 224),
      VGG13_NET_INPUT_SIZE = (224, 224),
      VGG11_NET_INPUT_SIZE = (224, 224),
      CIFAR_10_CLASS_NAMES = [''airplane'', ''automobile'', ''bird'', ''cat'', ''deer'', ''dog'',
                              ''frog'', ''horse'', ''ship'', ''truck'']\<rparr>"

definition example_trunk :: "string \<Rightarrow> int \<Rightarrow> ktensor \<Rightarrow> ktensor build" where
  "example_trunk model_type classes X =
     bind (call Flatten [X])
       (\<lambda>X.
     call (Dense classes (Some Softmax) None (glorot_uniform (Some 0))) [X])"

section \<open>Evaluating builders\<close>

lemma same_out_1 [simp]: "same_out n (Suc 0) = n" "same_out n 1 = n"
  by (simp_all add: same_out_def)

lemma compatible_refl [simp]: "compatible b b"
  by (cases b) simp_all

lemmas build_simps = bind_def return_def call_def Input_def concatenate_def default_axis_def
  concat_shape_def drop_axis_def random_uniform_def glorot_uniform_def Model_def

lemmas google_net_simps = google_net_def google_net_build_def inception_block_defaults_def inception_block_def
  auxiliary_classifier_def default_kernel_size_def default_pool_size_def build_simps

text \<open>
  An inception block built on a feature map always succeeds: it adds eight nodes, the last
  of which is the concatenation, and keeps batch, height and width.
\<close>

lemma inception_block_eval:
  assumes "shape X = [b, Some h, Some w, Some c]"
    and "f1 \<noteq> 0" "f2 \<noteq> 0" "f3 \<noteq> 0" "r1 \<noteq> 0" "r2 \<noteq> 0" "pp \<noteq> 0"
    and "k1h \<noteq> 0" "k1w \<noteq> 0" "k3h \<noteq> 0" "k3w \<noteq> 0" "k5h \<noteq> 0" "k5w \<noteq> 0" "ph \<noteq> 0" "pw \<noteq> 0"
  shows "\<exists>g'. inception_block X (f1, f2, f3) (r1, r2, pp) ((k1h, k1w), (k3h, k3w), (k5h, k5w))
             (ph, pw) init g
           = Inr (\<lparr>shape = [b, Some h, Some w, Some (f1 + f2 + f3 + pp)], node_id = length g + 7\<rparr>,
                  g @ g') \<and> length g' = 8"
  using assms by (simp add: inception_block_def build_simps)

text \<open>
  The four branches of the naive block: a convolution with valid padding and stride 1
  takes an extent \<open>n\<close> to \<open>n + 1 - k\<close> under a kernel extent \<open>k\<close> that fits, and the
  pooling, with same padding, keeps it.
\<close>

lemma valid_out_stride_1: "k \<le> n \<Longrightarrow> valid_out n k (Suc 0) = n + 1 - k"
  by (simp add: valid_out_def)

lemma naive_inception_branches_eval:
  assumes "shape X = [b, Some h, Some w, Some c]"
    and "f1 \<noteq> 0" "f2 \<noteq> 0" "f3 \<noteq> 0"
    and "k1h \<noteq> 0" "k1w \<noteq> 0" "k3h \<noteq> 0" "k3w \<noteq> 0" "k5h \<noteq> 0" "k5w \<noteq> 0" "ph \<noteq> 0" "pw \<noteq> 0"
    and "k1h \<le> h" "k1w \<le> w" "k3h \<le> h" "k3w \<le> w" "k5h \<le> h" "k5w \<le> w"
  shows "\<exists>g'. naive_inception_branches X (f1, f2, f3) ((k1h, k1w), (k3h, k3w), (k5h, k5w))
             (ph, pw) init g
           = Inr ([\<lparr>shape = [b, Some (h + 1 - k1h), Some (w + 1 - k1w), Some f1], node_id = length g\<rparr>,
                   \<lparr>shape = [b, Some (h + 1 - k3h), Some (w + 1 - k3w), Some f2], node_id = length g + 1\<rparr>,
                   \<lparr>shape = [b, Some (h + 1 - k5h), Some (w + 1 - k5w), Some f3], node_id = length g + 2\<rparr>,
                   \<lparr>shape = [b, Some h, Some w, Some c], node_id = length g + 3\<rparr>],
                  g @ g')"
  using assms
  by (simp add: naive_inception_branches_def build_simps valid_out_stride_1)

section \<open>The inference driver\<close>

lemma label_first_entry:
  "label (n0 # ns) (Array (Array (Scalar p # ps) # rest)) = Inr n0"
  by (simp add: label_def np_argmax_def list_getitem_def)

text \<open>
  C1. The claim: the reported label is the class name at the arg-max of the image's
  probability vector. The driver takes \<^verbatim>\<open>np.argmax(output_data[0][0])\<close>, the arg-max of
  the first probability alone, which is 0: on the output \<open>[[0.1, 0.9, 0, ..., 0]]\<close> of a
  10-class classifier it reports the first name of the table, whereas the arg-max of the
  vector is 1 and selects the second name.
\<close>

theorem label_reports_first_class:
  "label [n0, n1, n2, n3, n4, n5, n6, n7, n8, n9]
     (Array [Array [Scalar (1 / 10 :: real), Scalar (9 / 10), Scalar 0, Scalar 0, Scalar 0,
                    Scalar 0, Scalar 0, Scalar 0, Scalar 0, Scalar 0]]) = Inr n0
   \<and> label_of_argmax [n0, n1, n2, n3, n4, n5, n6, n7, n8, n9]
     (Array [Array [Scalar (1 / 10 :: real), Scalar (9 / 10), Scalar 0, Scalar 0, Scalar 0,
                    Scalar 0, Scalar 0, Scalar 0, Scalar 0, Scalar 0]]) = Inr n1
   \<and> np_argmax (Array [Scalar (1 / 10 :: real), Scalar (9 / 10), Scalar 0, Scalar 0, Scalar 0,
                    Scalar 0, Scalar 0, Scalar 0, Scalar 0, Scalar 0]) = Inr 1
   \<and> np_argmax (Scalar (1 / 10 :: real)) = Inr 0"
  by (simp add: label_def label_of_argmax_def np_argmax_def list_getitem_def)

section \<open>The inception blocks\<close>

text \<open>
  C2. The claim: \<open>naive_inception_block\<close> concatenates its four branches along the channel
  axis in the order 1x1, 3x3, 5x5, pooled. The branches are passed in that order, but with
  \<^verbatim>\<open>axis=0\<close>, the batch axis. On a 28x28x192 input with filters (64, 128, 32) and the
  default kernels the branches differ in height and width and the call is rejected; on an
  8x8x4 input with filters (4, 4, 4) and 1x1 kernels throughout, where the four branches
  have one shape, the result has the 4 channels of one branch, not 16, and its node is
  \<open>Concatenate 0\<close> over the nodes 1, 2, 3, 4 (node 0 being the input).
\<close>

theorem naive_inception_block_axis_0:
  "bind (Input (28, 28, 192))
     (\<lambda>X. naive_inception_block X (64, 128, 32) default_kernel_size default_pool_size
            random_uniform) [] = Inl ValueError
   \<and> map_sum id (\<lambda>(Y, g). (shape Y, layer (g ! node_id Y), inbound (g ! node_id Y)))
       (bind (Input (8, 8, 4))
          (\<lambda>X. naive_inception_block X (4, 4, 4) ((1, 1), (1, 1), (1, 1)) default_pool_size
                 random_uniform) [])
     = Inr ([None, Some 8, Some 8, Some 4], Concatenate 0, [1, 2, 3, 4])"
  by (simp add: naive_inception_block_def naive_inception_branches_def default_kernel_size_def
      default_pool_size_def build_simps valid_out_def)

text \<open>
  C6, as stated: for every input larger than the largest branch kernel
  \<open>naive_inception_block\<close> strictly shrinks height and width. On a 12x10x6 input with
  filters (6, 6, 6) and 1x1 kernels on the three convolutions the block returns a feature
  map of height 12 and width 10: a valid 1x1 convolution removes nothing, whatever the
  axis of the concatenation.
\<close>

theorem naive_inception_block_counterexample:
  "map_sum id (\<lambda>(Y, g). take 3 (shape Y))
     (bind (Input (12, 10, 6))
        (\<lambda>X. naive_inception_block X (6, 6, 6) ((1, 1), (1, 1), (1, 1)) default_pool_size
               random_uniform) [])
   = Inr [None, Some 12, Some 10]"
  by (simp add: naive_inception_block_def naive_inception_branches_def default_pool_size_def
      build_simps valid_out_def)

text \<open>
  C6, amended: for every input feature map and every block specification with positive
  filter counts and kernel and pool sizes free of zeros, \<open>inception_block\<close> returns a
  feature map with the height and width of its input (same padding on every branch).
  In \<open>naive_inception_block\<close>, on an input that its kernels fit, each convolution branch
  (valid padding) takes an extent \<open>n\<close> to \<open>n + 1 - k\<close> for its kernel extent \<open>k\<close>, so it
  shrinks the extent exactly when \<open>k\<close> exceeds 1, by \<open>k - 1\<close>, and the pooled branch (same
  padding) keeps height and width.
\<close>

theorem inception_blocks_spatial_dims:
  assumes "shape X = [b, Some h, Some w, Some c]"
    and "0 < f0" "0 < f1" "0 < f2" "0 < r0" "0 < r1" "0 < r2"
    and "0 < k1h" "0 < k1w" "0 < k3h" "0 < k3w" "0 < k5h" "0 < k5w" "0 < ph" "0 < pw"
  shows "(\<exists>Y g'. inception_block X (f0, f1, f2) (r0, r1, r2)
                    ((k1h, k1w), (k3h, k3w), (k5h, k5w)) (ph, pw) init g = Inr (Y, g')
                  \<and> take 3 (shape Y) = [b, Some h, Some w])
         \<and> (k1h \<le> h \<and> k1w \<le> w \<and> k3h \<le> h \<and> k3w \<le> w \<and> k5h \<le> h \<and> k5w \<le> w \<longrightarrow>
            (\<exists>Y1 Y3 Y5 Yp g'.
               naive_inception_branches X (f0, f1, f2) ((k1h, k1w), (k3h, k3w), (k5h, k5w))
                 (ph, pw) init g = Inr ([Y1, Y3, Y5, Yp], g')
               \<and> take 3 (shape Y1) = [b, Some (h + 1 - k1h), Some (w + 1 - k1w)]
               \<and> take 3 (shape Y3) = [b, Some (h + 1 - k3h), Some (w + 1 - k3w)]
               \<and> take 3 (shape Y5) = [b, Some (h + 1 - k5h), Some (w + 1 - k5w)]
               \<and> take 3 (shape Yp) = [b, Some h, Some w]))"
proof -
  have "\<exists>g'. inception_block X (f0, f1, f2) (r0, r1, r2) ((k1h, k1w), (k3h, k3w), (k5h, k5w))
             (ph, pw) init g
           = Inr (\<lparr>shape = [b, Some h, Some w, Some (f0 + f1 + f2 + r2)], node_id = length g + 7\<rparr>,
                  g @ g') \<and> length g' = 8"
    using assms by (intro inception_block_eval) simp_all
  then have first: "\<exists>Y g'. inception_block X (f0, f1, f2) (r0, r1, r2)
      ((k1h, k1w), (k3h, k3w), (k5h, k5w)) (ph, pw) init g = Inr (Y, g')
      \<and> take 3 (shape Y) = [b, Some h, Some w]"
    by force
  have second: "\<exists>Y1 Y3 Y5 Yp g'.
               naive_inception_branches X (f0, f1, f2) ((k1h, k1w), (k3h, k3w), (k5h, k5w))
                 (ph, pw) init g = Inr ([Y1, Y3, Y5, Yp], g')
               \<and> take 3 (shape Y1) = [b, Some (h + 1 - k1h), Some (w + 1 - k1w)]
               \<and> take 3 (shape Y3) = [b, Some (h + 1 - k3h), Some (w + 1 - k3w)]
               \<and> take 3 (shape Y5) = [b, Some (h + 1 - k5h), Some (w + 1 - k5w)]
               \<and> take 3 (shape Yp) = [b, Some h, Some w]"
    if fit: "k1h \<le> h" "k1w \<le> w" "k3h \<le> h" "k3w \<le> w" "k5h \<le> h" "k5w \<le> w"
  proof -
    have "\<exists>g'. naive_inception_branches X (f0, f1, f2) ((k1h, k1w), (k3h, k3w), (k5h, k5w))
             (ph, pw) init g
           = Inr ([\<lparr>shape = [b, Some (h + 1 - k1h), Some (w + 1 - k1w), Some f0], node_id = length g\<rparr>,
                   \<lparr>shape = [b, Some (h + 1 - k3h), Some (w + 1 - k3w), Some f1], node_id = length g + 1\<rparr>,
                   \<lparr>shape = [b, Some (h + 1 - k5h), Some (w + 1 - k5w), Some f2], node_id = length g + 2\<rparr>,
                   \<lparr>shape = [b, Some h, Some w, Some c], node_id = length g + 3\<rparr>],
                  g @ g')"
      using assms fit by (intro naive_inception_branches_eval) simp_all
    then show ?thesis
      by force
  qed
  from first second show ?thesis
    by blast
qed

theorem inception_blocks_spatial_dims_witness:
  "\<exists>X g. Input (28, 28, 192) [] = Inr (X, g)
     \<and> (\<exists>Y g'. inception_block X (64, 128, 32) (96, 16, 32) ((1, 1), (3, 3), (5, 5)) (3, 3)
                  random_uniform g = Inr (Y, g')
                \<and> take 3 (shape Y) = [None, Some 28, Some 28])
     \<and> (\<exists>Y1 Y3 Y5 Yp g'.
           naive_inception_branches X (64, 128, 32) ((1, 1), (3, 3), (5, 5)) (3, 3)
             random_uniform g = Inr ([Y1, Y3, Y5, Yp], g')
           \<and> take 3 (shape Y1) = [None, Some 28, Some 28]
           \<and> take 3 (shape Y3) = [None, Some 26, Some 26]
           \<and> take 3 (shape Y5) = [None, Some 24, Some 24]
           \<and> take 3 (shape Yp) = [None, Some 28, Some 28])"
proof -
  let ?X = "\<lparr>shape = [None, Some 28, Some 28, Some 192], node_id = 0\<rparr>"
  let ?g = "[\<lparr>layer = InputLayer [28, 28, 192], inbound = [], output_shape = [None, Some 28, Some 28, Some 192]\<rparr>]"
  have i: "Input (28, 28, 192) [] = Inr (?X, ?g)"
    by (simp add: build_simps)
  have s: "shape ?X = [None, Some 28, Some 28, Some 192]"
    by simp
  show ?thesis
    using i inception_blocks_spatial_dims
      [OF s, of 64 128 32 96 16 32 1 1 3 3 5 5 3 3 random_uniform ?g]
    by simp
qed

text \<open>
  C7. On every feature map and for every block specification with positive filter counts
  and with kernels and pool size free of zeros, \<open>inception_block\<close> returns a feature map
  whose channel count is \<open>filters[0] + filters[1] + filters[2] + reduced_filters[2]\<close>.
\<close>

theorem inception_block_channels:
  assumes "shape X = [b, Some h, Some w, Some c]"
    and "0 < f0" "0 < f1" "0 < f2" "0 < r0" "0 < r1" "0 < r2"
    and "0 < k1h" "0 < k1w" "0 < k3h" "0 < k3w" "0 < k5h" "0 < k5w" "0 < ph" "0 < pw"
  shows "\<exists>Y g'. inception_block X (f0, f1, f2) (r0, r1, r2) ((k1h, k1w), (k3h, k3w), (k5h, k5w))
                   (ph, pw) init g = Inr (Y, g')
                 \<and> shape Y = [b, Some h, Some w, Some (f0 + f1 + f2 + r2)]"
proof -
  have "\<exists>g'. inception_block X (f0, f1, f2) (r0, r1, r2) ((k1h, k1w), (k3h, k3w), (k5h, k5w))
             (ph, pw) init g
           = Inr (\<lparr>shape = [b, Some h, Some w, Some (f0 + f1 + f2 + r2)], node_id = length g + 7\<rparr>,
                  g @ g') \<and> length g' = 8"
    using assms by (intro inception_block_eval) simp_all
  then show ?thesis by force
qed

theorem inception_block_channels_witness:
  "\<exists>X g. Input (28, 28, 192) [] = Inr (X, g)
     \<and> (\<exists>Y g'. inception_block X (64, 128, 32) (96, 16, 32) ((1, 1), (3, 3), (5, 5)) (3, 3)
                  random_uniform g = Inr (Y, g')
                \<and> shape Y = [None, Some 28, Some 28, Some 256])"
proof -
  let ?X = "\<lparr>shape = [None, Some 28, Some 28, Some 192], node_id = 0\<rparr>"
  let ?g = "[\<lparr>layer = InputLayer [28, 28, 192], inbound = [], output_shape = [None, Some 28, Some 28, Some 192]\<rparr>]"
  have i: "Input (28, 28, 192) [] = Inr (?X, ?g)"
    by (simp add: build_simps)
  have s: "shape ?X = [None, Some 28, Some 28, Some 192]"
    by simp
  show ?thesis
    using i inception_block_channels
      [OF s, of 64 128 32 96 16 32 1 1 3 3 5 5 3 3 random_uniform ?g]
    by simp
qed

section \<open>Building GoogLeNet\<close>

lemma extent_bounds:
  "extent_after_stem n < Suc 0 \<longleftrightarrow> n = 0"
  "extent_at_aux n < 5 \<longleftrightarrow> n < 65"
  "extent_at_tail n < 7 \<longleftrightarrow> n < 193"
  by (simp_all add: extent_after_stem_def extent_at_aux_def extent_at_tail_def same_out_def
      valid_out_def) arith+

lemmas extent_defs = extent_after_stem_def extent_at_aux_def extent_at_tail_def

text \<open>Where the construction stops: at layer 3, at an auxiliary classifier, or at layer 17.\<close>

lemma google_net_fails_stem:
  assumes "extent_after_stem H < Suc 0 \<or> extent_after_stem W < Suc 0"
  shows "google_net (H, W) classes = Inl ValueError"
proof (cases "extent_after_stem H < Suc 0")
  case True
  then show ?thesis
    unfolding extent_defs by (simp add: google_net_simps)
next
  case False
  with assms have "extent_after_stem W < Suc 0"
    by simp
  with False show ?thesis
    unfolding extent_defs by (simp add: google_net_simps)
qed

lemma google_net_fails_aux_pool:
  assumes "\<not> extent_after_stem H < Suc 0" "\<not> extent_after_stem W < Suc 0"
    and "extent_at_aux H < 5 \<or> extent_at_aux W < 5"
  shows "google_net (H, W) classes = Inl ValueError"
proof (cases "extent_at_aux H < 5")
  case True
  with assms(1,2) show ?thesis
    unfolding extent_defs by (simp add: google_net_simps)
next
  case False
  with assms have "extent_at_aux W < 5"
    by simp
  with False assms(1,2) show ?thesis
    unfolding extent_defs by (simp add: google_net_simps)
qed

lemma google_net_fails_classes:
  assumes "\<not> extent_after_stem H < Suc 0" "\<not> extent_after_stem W < Suc 0"
    and "\<not> extent_at_aux H < 5" "\<not> extent_at_aux W < 5" and "classes \<le> 0"
  shows "google_net (H, W) classes = Inl ValueError"
  using assms unfolding extent_defs by (simp add: google_net_simps)

lemma google_net_fails_tail:
  assumes "\<not> extent_after_stem H < Suc 0" "\<not> extent_after_stem W < Suc 0"
    and "\<not> extent_at_aux H < 5" "\<not> extent_at_aux W < 5" and "\<not> classes \<le> 0"
    and "extent_at_tail H < 7 \<or> extent_at_tail W < 7"
  shows "google_net (H, W) classes = Inl ValueError"
proof (cases "extent_at_tail H < 7")
  case True
  with assms(1-5) show ?thesis
    unfolding extent_defs by (simp add: google_net_simps)
next
  case False
  with assms have "extent_at_tail W < 7"
    by simp
  with False assms(1-5) show ?thesis
    unfolding extent_defs by (simp add: google_net_simps)
qed

lemma google_net_fails:
  assumes "H < 193 \<or> W < 193 \<or> classes \<le> 0"
  shows "google_net (H, W) classes = Inl ValueError"
  using assms google_net_fails_stem [of H W classes] google_net_fails_aux_pool [of H W classes]
    google_net_fails_classes [of H W classes] google_net_fails_tail [of H W classes]
  unfolding extent_bounds by force

text \<open>The graph that is built otherwise: its input, its three outputs and their names.\<close>

lemma google_net_succeeds:
  assumes "193 \<le> H" "193 \<le> W" "0 < classes"
  shows "\<exists>m. google_net (H, W) classes = Inr m
     \<and> output_names m = [Some ''output'', Some ''output_aux_1'', Some ''output_aux_2'']
     \<and> input_layers m = [Some (InputLayer [H, W, 3])]
     \<and> map shape (inputs m) = [[None, Some H, Some W, Some 3]]
     \<and> map shape (outputs m) = [[None, Some (nat classes)], [None, Some (nat classes)],
                                 [None, Some (nat classes)]]
     \<and> compiled m = None"
proof -
  have "\<not> extent_after_stem H < Suc 0" "\<not> extent_after_stem W < Suc 0"
    "\<not> extent_at_aux H < 5" "\<not> extent_at_aux W < 5"
    "\<not> extent_at_tail H < 7" "\<not> extent_at_tail W < 7"
    using assms(1,2) unfolding extent_bounds by simp_all
  with assms(3) show ?thesis
    unfolding extent_defs
    by (simp add: google_net_simps output_names_def input_layers_def layer_at_def)
qed

lemma google_net_Inr:
  assumes "google_net input_shape classes = Inr m"
  shows "193 \<le> fst input_shape \<and> 193 \<le> snd input_shape \<and> 0 < classes
     \<and> output_names m = [Some ''output'', Some ''output_aux_1'', Some ''output_aux_2'']
     \<and> input_layers m = [Some (InputLayer [fst input_shape, snd input_shape, 3])]
     \<and> map shape (inputs m) = [[None, Some (fst input_shape), Some (snd input_shape), Some 3]]
     \<and> map shape (outputs m) = [[None, Some (nat classes)], [None, Some (nat classes)],
                                 [None, Some (nat classes)]]
     \<and> compiled m = None"
proof -
  obtain H W where hw: "input_shape = (H, W)"
    by (cases input_shape) auto
  have ok: "193 \<le> H \<and> 193 \<le> W \<and> 0 < classes"
  proof (rule ccontr)
    assume "\<not> ?thesis"
    then have "H < 193 \<or> W < 193 \<or> classes \<le> 0"
      by auto
    from google_net_fails [OF this] assms hw show False
      by simp
  qed
  then have "\<exists>m. google_net (H, W) classes = Inr m
     \<and> output_names m = [Some ''output'', Some ''output_aux_1'', Some ''output_aux_2'']
     \<and> input_layers m = [Some (InputLayer [H, W, 3])]
     \<and> map shape (inputs m) = [[None, Some H, Some W, Some 3]]
     \<and> map shape (outputs m) = [[None, Some (nat classes)], [None, Some (nat classes)],
                                 [None, Some (nat classes)]]
     \<and> compiled m = None"
    by (intro google_net_succeeds) simp_all
  then obtain m' where "google_net (H, W) classes = Inr m'
     \<and> output_names m' = [Some ''output'', Some ''output_aux_1'', Some ''output_aux_2'']
     \<and> input_layers m' = [Some (InputLayer [H, W, 3])]
     \<and> map shape (inputs m') = [[None, Some H, Some W, Some 3]]
     \<and> map shape (outputs m') = [[None, Some (nat classes)], [None, Some (nat classes)],
                                 [None, Some (nat classes)]]
     \<and> compiled m' = None" ..
  with assms hw ok show ?thesis
    by simp
qed

text \<open>
  The construction fails exactly on these inputs, and returns the graph on all others.
\<close>

lemma google_net_fails_iff:
  "(google_net (H, W) classes = Inl ValueError \<longleftrightarrow> H < 193 \<or> W < 193 \<or> classes \<le> 0)
   \<and> (isl (google_net (H, W) classes) \<longleftrightarrow> H < 193 \<or> W < 193 \<or> classes \<le> 0)"
proof (cases "H < 193 \<or> W < 193 \<or> classes \<le> 0")
  case True
  from google_net_fails [OF this] True show ?thesis
    by simp
next
  case False
  then obtain m where "google_net (H, W) classes = Inr m"
    using google_net_succeeds [of H W classes] by auto
  with False show ?thesis
    by simp
qed

text \<open>
  C3. With a number of classes that is not positive, or with a height or width below 32
  (an extent that five halvings take to zero), \<open>google_net\<close> raises during the
  construction and returns no graph. \<open>google_net\<close> checks nothing itself: the error is
  the \<open>ValueError\<close> of the layer call that rejects its arguments, a \<open>Dense\<close> layer for the
  number of classes and an average pooling with valid padding for the extents, whose
  window no longer fits (this already happens below 193, see \<open>google_net_fails\<close>).
\<close>

theorem google_net_construction_error:
  assumes "classes \<le> 0 \<or> H < 32 \<or> W < 32"
  shows "google_net (H, W) classes = Inl ValueError \<and> isl (google_net (H, W) classes)"
proof -
  from assms have "H < 193 \<or> W < 193 \<or> classes \<le> 0"
    by auto
  from google_net_fails [OF this] show ?thesis
    by simp
qed

theorem google_net_construction_error_witness:
  "google_net (224, 224) 0 = Inl ValueError
   \<and> google_net (224, 224) (- 3) = Inl ValueError
   \<and> google_net (16, 224) 10 = Inl ValueError
   \<and> google_net (224, 31) 10 = Inl ValueError"
  using google_net_construction_error [of 0 224 224] google_net_construction_error [of "- 3" 224 224]
    google_net_construction_error [of 10 16 224] google_net_construction_error [of 10 224 31]
  by simp

section \<open>The model factory and the model loader\<close>

lemma compile_fields [simp]:
  "inputs (compile l opt lw ms m) = inputs m"
  "outputs (compile l opt lw ms m) = outputs m"
  "graph_of (compile l opt lw ms m) = graph_of m"
  "compiled (compile l opt lw ms m)
     = Some \<lparr>loss_of = l, optimizer_of = opt, loss_weights_of = lw, metrics_of = ms\<rparr>"
  by (simp_all add: compile_def)

lemma output_names_compile [simp]:
  "output_names (compile l opt lw ms m) = output_names m"
  by (simp add: output_names_def)


text \<open>What \<open>get_model\<close> returns in its GoogLeNet branch.\<close>

lemma get_model_google_net:
  assumes "MODEL_TYPE Cfg = ''GoogLeNet''"
    and "get_model B Cfg classes_numbers = Inr (m, input_size)"
  shows "\<exists>m0. google_net (GOOGLE_NET_INPUT_SIZE Cfg) classes_numbers = Inr m0
     \<and> m = compile_google_net m0 \<and> input_size = GOOGLE_NET_INPUT_SIZE Cfg"
  using assms by (auto simp: get_model_def Let_def split: sum.splits)

lemma example_get_model:
  "\<exists>m0. google_net (224, 224) 10 = Inr m0
     \<and> get_model B (example_config ''GoogLeNet'') 10 = Inr (compile_google_net m0, (224, 224))"
proof -
  obtain m0 where "google_net (224, 224) 10 = Inr m0"
    using google_net_succeeds [of 224 224 10] by auto
  then show ?thesis
    by (simp add: get_model_def example_config_def Let_def)
qed




text \<open>
  C5. In its GoogLeNet branch \<open>get_model\<close> compiles the graph with a categorical
  cross-entropy for each of the three named outputs, with the weights 1, 0.3 and 0.3 for
  \<open>output\<close>, \<open>output_aux_1\<close> and \<open>output_aux_2\<close> (the list \<open>[1, 0.3, 0.3]\<close> read against
  the outputs in their order), and with SGD of learning rate 0.1 and momentum 0.9.
\<close>

theorem get_model_google_net_recipe:
  assumes "MODEL_TYPE Cfg = ''GoogLeNet''"
    and "get_model B Cfg classes_numbers = Inr (m, input_size)"
  shows "map_option loss_of (compiled m)
       = Some (LossDict [(''output'', CategoricalCrossentropy),
                         (''output_aux_1'', CategoricalCrossentropy),
                         (''output_aux_2'', CategoricalCrossentropy)])
     \<and> loss_weight m ''output'' = Some 1
     \<and> loss_weight m ''output_aux_1'' = Some (3 / 10)
     \<and> loss_weight m ''output_aux_2'' = Some (3 / 10)
     \<and> the (loss_weight m ''output_aux_1'') < the (loss_weight m ''output'')
     \<and> loss_weight m ''output_aux_1'' = loss_weight m ''output_aux_2''
     \<and> map_option optimizer_of (compiled m) = Some (SGD (1 / 10) (9 / 10) False)"
proof -
  from get_model_google_net [OF assms] obtain m0
    where m0: "google_net (GOOGLE_NET_INPUT_SIZE Cfg) classes_numbers = Inr m0"
      and m: "m = compile_google_net m0"
    by blast
  from google_net_Inr [OF m0]
  have "output_names m0 = [Some ''output'', Some ''output_aux_1'', Some ''output_aux_2'']"
    by simp
  then show ?thesis
    unfolding m by (simp add: compile_google_net_def Let_def loss_weight_def SGD_default_def)
qed

theorem get_model_google_net_recipe_witness:
  "\<exists>m. get_model (spec_builders example_trunk) (example_config ''GoogLeNet'') 10
          = Inr (m, (224, 224))
       \<and> loss_weight m ''output'' = Some 1
       \<and> loss_weight m ''output_aux_1'' = Some (3 / 10)
       \<and> loss_weight m ''output_aux_2'' = Some (3 / 10)
       \<and> map_option optimizer_of (compiled m) = Some (SGD (1 / 10) (9 / 10) False)"
proof -
  obtain m0 where g: "get_model (spec_builders example_trunk) (example_config ''GoogLeNet'') 10
      = Inr (compile_google_net m0, (224, 224))"
    using example_get_model [of "spec_builders example_trunk"] by blast
  have t: "MODEL_TYPE (example_config ''GoogLeNet'') = ''GoogLeNet''"
    by (simp add: example_config_def)
  from get_model_google_net_recipe [OF t g] g show ?thesis
    by blast
qed

text \<open>
  C8. For a model name outside the supported set both \<open>get_model\<close> and \<open>load_model\<close>
  raise \<^verbatim>\<open>Exception('Invalid model type!')\<close>: nothing is built, nothing is loaded and no
  graph is returned.
\<close>

theorem unknown_model_type_raises:
  assumes "MODEL_TYPE Cfg \<notin> set supported"
  shows "get_model B Cfg classes_numbers = Inl (Exception ''Invalid model type!'')
     \<and> load_model keras_load_model Cfg model_path = Inl (Exception ''Invalid model type!'')"
  using assms by (simp add: get_model_def load_model_def supported_def)

theorem unknown_model_type_raises_witness:
  "get_model (spec_builders example_trunk) (example_config ''FooNet'') 10
     = Inl (Exception ''Invalid model type!'')
   \<and> load_model (\<lambda>path. Inl ValueError) (example_config ''FooNet'') ''./models/FooNet.h5''
     = Inl (Exception ''Invalid model type!'')"
proof -
  have "MODEL_TYPE (example_config ''FooNet'') \<notin> set supported"
    by (simp add: example_config_def supported_def)
  from unknown_model_type_raises [OF this] show ?thesis
    by simp
qed

text \<open>
  C9. In the GoogLeNet branch the optimizer that \<open>compile\<close> receives is SGD with learning
  rate 0.1 and momentum 0.9; the optimizer bound first, with learning rate 0.01, is not
  the one in the compiled model.
\<close>

theorem get_model_google_net_optimizer:
  assumes "MODEL_TYPE Cfg = ''GoogLeNet''"
    and "get_model B Cfg classes_numbers = Inr (m, input_size)"
  shows "map_option optimizer_of (compiled m) = Some (SGD_default (1 / 10) (9 / 10))
     \<and> SGD_default (1 / 10) (9 / 10) = SGD (1 / 10) (9 / 10) False
     \<and> map_option optimizer_of (compiled m) \<noteq> Some (SGD (1 / 100) (9 / 10) False)"
proof -
  from get_model_google_net [OF assms] obtain m0 where "m = compile_google_net m0"
    by blast
  then show ?thesis
    by (simp add: compile_google_net_def Let_def SGD_default_def)
qed

theorem get_model_google_net_optimizer_witness:
  "\<exists>m. get_model (spec_builders example_trunk) (example_config ''GoogLeNet'') 10
          = Inr (m, (224, 224))
       \<and> map_option optimizer_of (compiled m) = Some (SGD (1 / 10) (9 / 10) False)
       \<and> map_option optimizer_of (compiled m) \<noteq> Some (SGD (1 / 100) (9 / 10) False)"
proof -
  obtain m0 where g: "get_model (spec_builders example_trunk) (example_config ''GoogLeNet'') 10
      = Inr (compile_google_net m0, (224, 224))"
    using example_get_model [of "spec_builders example_trunk"] by blast
  have t: "MODEL_TYPE (example_config ''GoogLeNet'') = ''GoogLeNet''"
    by (simp add: example_config_def)
  from get_model_google_net_optimizer [OF t g] g show ?thesis
    by (auto simp: SGD_default_def)
qed



end
